theory Spec2Isabelle
  imports Complex_Main "HOL-Library.Sublist"
begin

section \<open>A shallow embedding of the chat widget of \<^verbatim>\<open>src/components/ChatUI.tsx\<close>\<close>

text \<open>
  The component keeps its state in React state variables and changes it from three
  handlers: \<^verbatim>\<open>handleSend\<close> (with its helper \<^verbatim>\<open>callGeminiAPI\<close>),
  \<^verbatim>\<open>handleFileUpload\<close> (with its helper \<^verbatim>\<open>extractTextFromPDF\<close>) and
  \<^verbatim>\<open>removeFile\<close>. The embedding passes the state explicitly. What the outside world
  supplies (the clock, the answer of the completion service, the content of an uploaded
  document) is a parameter of the handler that consumes it; what a handler does to the
  outside world (a request, an alert, a console line) is returned as a list of effects.
  Thrown JavaScript values are \<open>Inl\<close> of a sum type.

  An asynchronous handler is cut at its \<^verbatim>\<open>await\<close>: the part before it runs against
  the state of the render the handler was created in, the part after it against the state
  at the time the awaited promise settles. Running both parts with nothing in between is
  the handler's uninterrupted run.
\<close>

subsection \<open>Strings and numbers\<close>

text \<open>
  A JavaScript string is a sequence of UTF-16 code units; a \<^typ>\<open>char\<close> stands for a code
  unit below 256. Of the code units \<^verbatim>\<open>String.prototype.trim\<close> strips, those below 256 are
  TAB, LF, VT, FF, CR, SPACE and NO-BREAK SPACE.
\<close>

definition isWhiteSpace :: "char \<Rightarrow> bool" where
  "isWhiteSpace c \<longleftrightarrow>
     c \<in> set [CHR 0x09, CHR 0x0A, CHR 0x0B, CHR 0x0C, CHR 0x0D, CHR 0x20, CHR 0xA0]"

definition trim :: "string \<Rightarrow> string" where
  "trim s = rev (dropWhile isWhiteSpace (rev (dropWhile isWhiteSpace s)))"

text \<open>\<^verbatim>\<open>Array.prototype.join\<close> on an array of strings.\<close>

fun join :: "string \<Rightarrow> string list \<Rightarrow> string" where
  "join sep [] = []"
| "join sep [x] = x"
| "join sep (x # y # ys) = x @ sep @ join sep (y # ys)"

text \<open>The decimal numeral a template literal prints for an integral number.\<close>

fun digits :: "nat \<Rightarrow> string" where
  "digits n =
     (if n < 10 then [''0123456789'' ! n]
      else digits (n div 10) @ [''0123456789'' ! (n mod 10)])"

declare digits.simps [simp del]

definition show_int :: "int \<Rightarrow> string" where
  "show_int i = (if i < 0 then ''-'' @ digits (nat (- i)) else digits (nat i))"

subsection \<open>JSON values and the reply path\<close>

text \<open>
  \<^verbatim>\<open>response.json()\<close> resolves to a value of type \<^verbatim>\<open>any\<close>: whatever JSON the
  service sent. An object is kept as its key-value pairs, looked up with \<^const>\<open>map_of\<close>.
  \<^verbatim>\<open>undefined\<close>, which is no JSON value but the result of a missing property, is
  \<open>None\<close> of an option type.
\<close>

datatype json =
    JNull
  | JBool bool
  | JNum rat
  | JStr string
  | JArr "json list"
  | JObj "(string \<times> json) list"

text \<open>
  Reading a property named \<^verbatim>\<open>candidates\<close>, \<^verbatim>\<open>content\<close>, \<^verbatim>\<open>parts\<close> or
  \<^verbatim>\<open>text\<close> of a value that is neither \<^verbatim>\<open>null\<close> nor \<^verbatim>\<open>undefined\<close>: only
  an object can have it (no prototype of a JSON value defines one of these four names).
\<close>

fun property :: "string \<Rightarrow> json \<Rightarrow> json option" where
  "property k (JObj kvs) = map_of kvs k"
| "property k v = None"

text \<open>
  Reading \<^verbatim>\<open>[0]\<close> of such a value: the first element of an array, the first code unit
  of a string, the property \<^verbatim>\<open>"0"\<close> of an object.
\<close>

fun index0 :: "json \<Rightarrow> json option" where
  "index0 (JArr []) = None"
| "index0 (JArr (x # xs)) = Some x"
| "index0 (JStr []) = None"
| "index0 (JStr (c # cs)) = Some (JStr [c])"
| "index0 (JObj kvs) = map_of kvs ''0''"
| "index0 v = None"

text \<open>Optional chaining \<^verbatim>\<open>base?.access\<close>.\<close>

fun optional :: "(json \<Rightarrow> json option) \<Rightarrow> json option \<Rightarrow> json option" where
  "optional access None = None"
| "optional access (Some JNull) = None"
| "optional access (Some v) = access v"

text \<open>JavaScript truthiness, as \<^verbatim>\<open>||\<close> tests it.\<close>

fun truthy :: "json option \<Rightarrow> bool" where
  "truthy None = False"
| "truthy (Some JNull) = False"
| "truthy (Some (JBool b)) = b"
| "truthy (Some (JNum r)) = (r \<noteq> 0)"
| "truthy (Some (JStr s)) = (s \<noteq> [])"
| "truthy (Some v) = True"

datatype js_error =
    Error string
  | FetchRejected
  | JsonRejected
  | TypeError
  | PdfJsRejected

text \<open>
  \<^verbatim>\<open>data.candidates?.[0]?.content?.parts?.[0]?.text\<close> (line 226). The first access
  is not optional: on \<^verbatim>\<open>null\<close> it throws.
\<close>

definition text_path :: "json \<Rightarrow> js_error + json option" where
  "text_path data =
     (case data of
        JNull \<Rightarrow> Inl TypeError
      | _ \<Rightarrow>
          Inr (optional (property ''text'')
                (optional index0
                  (optional (property ''parts'')
                    (optional (property ''content'')
                      (optional index0 (property ''candidates'' data)))))))"

definition no_response :: string where
  "no_response = ''Sorry, I could not generate a response.''"

text \<open>\<^verbatim>\<open>v || 'Sorry, I could not generate a response.'\<close>\<close>

definition or_no_response :: "json option \<Rightarrow> json" where
  "or_no_response v = (if truthy v then the v else JStr no_response)"

subsection \<open>Data model\<close>

datatype sender = User | Assistant

text \<open>
  The field \<^verbatim>\<open>text\<close> is declared \<^verbatim>\<open>string\<close>, but the assistant's text comes out of
  the service's JSON unchecked, so at run time it holds a JSON value.
\<close>

record Message =
  id_msg :: string
  sender :: sender
  text_msg :: json
  timestamp :: int
  hasAttachment :: "bool option"
  attachmentName :: "string option"

datatype role = RoleUser | RoleModel

record Part =
  text_part :: json

record GeminiContent =
  role :: role
  parts :: "Part list"

datatype file_type = Pdf

record UploadedFile =
  name :: string
  content :: string
  type :: file_type

record state =
  messages :: "Message list"
  conversationHistory :: "GeminiContent list"
  input :: string
  isTyping :: bool
  uploadedFiles :: "UploadedFile list"
  isProcessingFile :: bool
  pdfJsLoaded :: bool

datatype effect =
    Fetch "GeminiContent list"
  | Alert string
  | ConsoleLog "string list"
  | ConsoleError string js_error

subsection \<open>The completion service\<close>

text \<open>
  What the two awaits of \<^verbatim>\<open>callGeminiAPI\<close> yield: \<^verbatim>\<open>fetch\<close> rejects or resolves
  to a response with a status, whose \<^verbatim>\<open>json()\<close> rejects or resolves to a value.
  \<^verbatim>\<open>response.ok\<close> is true for the statuses 200 to 299.
\<close>

datatype json_outcome = JsonRejects | JsonResolves json

datatype fetch_outcome = FetchRejects | FetchResolves nat json_outcome

definition ok :: "nat \<Rightarrow> bool" where
  "ok status \<longleftrightarrow> 200 \<le> status \<and> status \<le> 299"

text \<open>Lines 193 to 199.\<close>

definition messageForAPI :: "UploadedFile list \<Rightarrow> string \<Rightarrow> bool \<Rightarrow> string" where
  "messageForAPI files userMessage includeFileContent =
     (if includeFileContent \<and> length files > 0 then
        (let fileContext =
               join ''\<newline>\<newline>''
                 (map (\<lambda>file. ''Content from '' @ name file @ '':\<newline>'' @ content file) files)
         in ''Context from uploaded files:\<newline>'' @ fileContext
              @ ''\<newline>\<newline>User question: '' @ userMessage)
      else userMessage)"

text \<open>Lines 202 to 207.\<close>

definition newUserContent :: "string \<Rightarrow> GeminiContent" where
  "newUserContent message = \<lparr>role = RoleUser, parts = [\<lparr>text_part = JStr message\<rparr>]\<rparr>"

definition updatedHistory :: "state \<Rightarrow> string \<Rightarrow> bool \<Rightarrow> GeminiContent list" where
  "updatedHistory s userMessage includeFileContent =
     conversationHistory s
       @ [newUserContent (messageForAPI (uploadedFiles s) userMessage includeFileContent)]"

text \<open>Lines 229 to 232.\<close>

definition aiContent :: "json \<Rightarrow> GeminiContent" where
  "aiContent aiResponseText = \<lparr>role = RoleModel, parts = [\<lparr>text_part = aiResponseText\<rparr>]\<rparr>"

text \<open>
  Lines 219 to 236, the rest of the \<^verbatim>\<open>try\<close> block once \<^verbatim>\<open>fetch\<close> has settled:
  the reply and the history to store, or the value thrown.
\<close>

definition callGeminiAPI_try ::
  "GeminiContent list \<Rightarrow> fetch_outcome \<Rightarrow> js_error + json \<times> GeminiContent list" where
  "callGeminiAPI_try history outcome =
     (case outcome of
        FetchRejects \<Rightarrow> Inl FetchRejected
      | FetchResolves status body \<Rightarrow>
          if \<not> ok status then Inl (Error (''API request failed: '' @ digits status))
          else
            (case body of
               JsonRejects \<Rightarrow> Inl JsonRejected
             | JsonResolves data \<Rightarrow>
                 (case text_path data of
                    Inl e \<Rightarrow> Inl e
                  | Inr v \<Rightarrow>
                      (let aiResponseText = or_no_response v
                       in Inr (aiResponseText, history @ [aiContent aiResponseText])))))"

definition api_error :: string where
  "api_error = ''Sorry, I encountered an error while processing your request. Please try again.''"

text \<open>
  \<^verbatim>\<open>callGeminiAPI\<close> after its await, with the \<^verbatim>\<open>catch\<close> of lines 237 to 240. The
  history it stores is built from the history of the render that made the request
  (\<open>history\<close>); the store goes to the current state.
\<close>

definition callGeminiAPI_settle ::
  "GeminiContent list \<Rightarrow> fetch_outcome \<Rightarrow> state \<Rightarrow> (js_error + json) \<times> state \<times> effect list" where
  "callGeminiAPI_settle history outcome cur =
     (case callGeminiAPI_try history outcome of
        Inr (aiResponseText, history') \<Rightarrow>
          (Inr aiResponseText, cur\<lparr>conversationHistory := history'\<rparr>, [])
      | Inl error \<Rightarrow>
          (Inr (JStr api_error), cur, [ConsoleError ''Error calling Gemini API:'' error]))"

text \<open>\<^verbatim>\<open>callGeminiAPI\<close> run without interruption from a state \<open>s\<close>.\<close>

definition callGeminiAPI ::
  "state \<Rightarrow> string \<Rightarrow> bool \<Rightarrow> fetch_outcome \<Rightarrow> (js_error + json) \<times> state \<times> effect list" where
  "callGeminiAPI s userMessage includeFileContent outcome =
     (let history = updatedHistory s userMessage includeFileContent;
          (result, s', effects) = callGeminiAPI_settle history outcome s
      in (result, s', Fetch history # effects))"

text \<open>
  The outcomes on which the \<^verbatim>\<open>try\<close> block throws: \<^verbatim>\<open>fetch\<close> rejects, the status
  is not a success, the body does not parse, or the body is \<^verbatim>\<open>null\<close>.
\<close>

definition fails :: "fetch_outcome \<Rightarrow> bool" where
  "fails outcome =
     (case outcome of
        FetchRejects \<Rightarrow> True
      | FetchResolves status body \<Rightarrow>
          \<not> ok status \<or> (case body of JsonRejects \<Rightarrow> True | JsonResolves data \<Rightarrow> data = JNull))"

subsection \<open>Sending\<close>

text \<open>
  The four readings of \<^verbatim>\<open>Date.now()\<close> in a send: two for the user's message, two for
  the assistant's.
\<close>

record send_clock =
  user_id_now :: int
  user_now :: int
  assistant_id_now :: int
  assistant_now :: int

text \<open>Lines 248 to 253.\<close>

definition userMessage :: "send_clock \<Rightarrow> string \<Rightarrow> Message" where
  "userMessage clock text =
     \<lparr>id_msg = ''user-'' @ show_int (user_id_now clock),
      sender = User,
      text_msg = JStr text,
      timestamp = user_now clock,
      hasAttachment = None,
      attachmentName = None\<rparr>"

text \<open>Lines 263 to 268.\<close>

definition assistantMessage :: "send_clock \<Rightarrow> json \<Rightarrow> Message" where
  "assistantMessage clock aiResponse =
     \<lparr>id_msg = ''assistant-'' @ show_int (assistant_id_now clock),
      sender = Assistant,
      text_msg = aiResponse,
      timestamp = assistant_now clock,
      hasAttachment = None,
      attachmentName = None\<rparr>"

definition handleSend_error :: string where
  "handleSend_error = ''Sorry, I encountered an error. Please try again.''"

text \<open>Lines 277 to 282.\<close>

definition errorMessage :: "send_clock \<Rightarrow> Message" where
  "errorMessage clock =
     \<lparr>id_msg = ''assistant-'' @ show_int (assistant_id_now clock),
      sender = Assistant,
      text_msg = JStr handleSend_error,
      timestamp = assistant_now clock,
      hasAttachment = None,
      attachmentName = None\<rparr>"

text \<open>
  Lines 244 to 261, up to the await: \<open>None\<close> is the early return, otherwise the state
  after the three stores, the request's history (which the suspended call keeps) and the
  request made.
\<close>

definition handleSend_begin ::
  "state \<Rightarrow> send_clock \<Rightarrow> (state \<times> GeminiContent list \<times> effect list) option" where
  "handleSend_begin s clock =
     (let text = trim (input s) in
      if text = [] \<or> isTyping s then None
      else
        (let history = updatedHistory s text (length (uploadedFiles s) > 0)
         in Some (s\<lparr>messages := messages s @ [userMessage clock text],
                    input := [],
                    isTyping := True\<rparr>,
                  history, [Fetch history])))"

text \<open>Lines 261 to 286, from the await on.\<close>

definition handleSend_settle ::
  "GeminiContent list \<Rightarrow> fetch_outcome \<Rightarrow> send_clock \<Rightarrow> state \<Rightarrow> state \<times> effect list" where
  "handleSend_settle history outcome clock cur =
     (case callGeminiAPI_settle history outcome cur of
        (Inr aiResponse, cur', effects) \<Rightarrow>
          (cur'\<lparr>messages := messages cur' @ [assistantMessage clock aiResponse],
                uploadedFiles := [],
                isTyping := False\<rparr>,
           effects)
      | (Inl error, cur', effects) \<Rightarrow>
          (cur'\<lparr>messages := messages cur' @ [errorMessage clock], isTyping := False\<rparr>,
           effects @ [ConsoleError ''Error in handleSend:'' error]))"

text \<open>\<^verbatim>\<open>handleSend\<close> run without interruption from a state \<open>s\<close>.\<close>

definition handleSend :: "state \<Rightarrow> send_clock \<Rightarrow> fetch_outcome \<Rightarrow> state \<times> effect list" where
  "handleSend s clock outcome =
     (case handleSend_begin s clock of
        None \<Rightarrow> (s, [])
      | Some (s', history, effects) \<Rightarrow>
          (let (s'', effects') = handleSend_settle history outcome clock s'
           in (s'', effects @ effects')))"

subsection \<open>Extracting the text of a document\<close>

text \<open>
  What the document library shows of a document to \<^verbatim>\<open>extractTextFromPDF\<close>: the
  file reader fails or loads the bytes; \<^verbatim>\<open>getDocument\<close> rejects or resolves to a
  document; each page of it, when asked for, is refused, or its text content is refused,
  or the text content arrives, of which the \<^verbatim>\<open>str\<close> of each item is kept. The
  document is the list of its pages, \<^verbatim>\<open>numPages\<close> its length.
\<close>

datatype page_outcome = GetPageRejects | GetTextContentRejects | TextContent "string list"

datatype document_outcome = GetDocumentRejects | Document "page_outcome list"

datatype read_outcome = ReadFails | ReadLoads document_outcome

text \<open>\<^verbatim>\<open>pdf.getPage(i)\<close>: pages are numbered from 1.\<close>

definition getPage :: "page_outcome list \<Rightarrow> nat \<Rightarrow> page_outcome" where
  "getPage pdf i = (if 1 \<le> i \<and> i \<le> length pdf then pdf ! (i - 1) else GetPageRejects)"

text \<open>
  The loop of lines 111 to 120, entered at page \<open>i\<close> with the text and the console
  lines so far.
\<close>

function extract_pages ::
  "page_outcome list \<Rightarrow> nat \<Rightarrow> string \<Rightarrow> effect list \<Rightarrow> (js_error + string) \<times> effect list" where
  "extract_pages pdf i fullText console =
     (if i \<le> length pdf then
        (case getPage pdf i of
           GetPageRejects \<Rightarrow> (Inl PdfJsRejected, console)
         | GetTextContentRejects \<Rightarrow> (Inl PdfJsRejected, console)
         | TextContent items \<Rightarrow>
             (let pageText = join '' '' items
              in extract_pages pdf (i + 1)
                   (fullText @ ''Page '' @ digits i @ '':\<newline>'' @ pageText @ ''\<newline>\<newline>'')
                   (console @ [ConsoleLog [''Page '' @ digits i @ '' extracted:'', pageText]])))
      else (Inr fullText, console))"
  by pat_completeness auto
termination
  by (relation "measure (\<lambda>(pdf, i, fullText, console). Suc (length pdf) - i)") auto

declare extract_pages.simps [simp del]

text \<open>
  \<^verbatim>\<open>extractTextFromPDF\<close>, called in the render \<open>s\<close>, with \<^verbatim>\<open>window.pdfjsLib\<close>
  present or not: the text the promise resolves to or the value it rejects with, and the
  console lines.
\<close>

definition extractTextFromPDF ::
  "state \<Rightarrow> bool \<Rightarrow> read_outcome \<Rightarrow> (js_error + string) \<times> effect list" where
  "extractTextFromPDF s pdfjsLib reading =
     (if \<not> pdfJsLoaded s \<or> \<not> pdfjsLib then (Inl (Error ''PDF.js not loaded''), [])
      else
        (case reading of
           ReadFails \<Rightarrow> (Inl (Error ''Failed to read file''), [])
         | ReadLoads GetDocumentRejects \<Rightarrow>
             (Inl PdfJsRejected, [ConsoleError ''Error extracting PDF text:'' PdfJsRejected])
         | ReadLoads (Document pdf) \<Rightarrow>
             (case extract_pages pdf 1 []
                     [ConsoleLog [''PDF loaded successfully. Total pages: '' @ digits (length pdf)]] of
                (Inr fullText, console) \<Rightarrow>
                  (Inr fullText, console @ [ConsoleLog [''Complete PDF content:'', fullText]])
              | (Inl error, console) \<Rightarrow>
                  (Inl error, console @ [ConsoleError ''Error extracting PDF text:'' error]))))"

text \<open>
  The extraction as the specification words it: every page's header, its fragments joined
  by one space, and a blank line, in page order.
\<close>

definition page_block :: "nat \<Rightarrow> string list \<Rightarrow> string" where
  "page_block i fragments = ''Page '' @ digits i @ '':\<newline>'' @ join '' '' fragments @ ''\<newline>\<newline>''"

definition spec_extract :: "string list list \<Rightarrow> string" where
  "spec_extract pages = concat (map (\<lambda>(i, fragments). page_block i fragments) (enumerate 1 pages))"

subsection \<open>Uploading and removing attachments\<close>

text \<open>The browser's \<^verbatim>\<open>File\<close>: its name and its declared media type.\<close>

record File =
  name_File :: string
  type_File :: string

text \<open>The two readings of \<^verbatim>\<open>Date.now()\<close> in an upload.\<close>

record upload_clock =
  file_id_now :: int
  file_now :: int

text \<open>Lines 153 to 157.\<close>

definition newFile :: "File \<Rightarrow> string \<Rightarrow> UploadedFile" where
  "newFile file extractedText = \<lparr>name = name_File file, content = extractedText, type = Pdf\<rparr>"

text \<open>Lines 162 to 169.\<close>

definition fileMessage :: "upload_clock \<Rightarrow> File \<Rightarrow> Message" where
  "fileMessage clock file =
     \<lparr>id_msg = ''file-'' @ show_int (file_id_now clock),
      sender = User,
      text_msg = JStr (''Uploaded: '' @ name_File file),
      timestamp = file_now clock,
      hasAttachment = Some True,
      attachmentName = Some (name_File file)\<rparr>"

text \<open>
  Lines 135 to 151, up to the await. The third component is the file whose extraction
  has been started, or \<open>None\<close> after an early return.
\<close>

definition handleFileUpload_begin ::
  "state \<Rightarrow> File option \<Rightarrow> state \<times> effect list \<times> File option" where
  "handleFileUpload_begin s chosen =
     (case chosen of
        None \<Rightarrow> (s, [], None)
      | Some file \<Rightarrow>
          if type_File file \<noteq> ''application/pdf'' then
            (s, [Alert ''Please upload only PDF files''], None)
          else if \<not> pdfJsLoaded s then
            (s, [Alert ''PDF processing library is still loading. Please try again in a moment.''],
             None)
          else (s\<lparr>isProcessingFile := True\<rparr>, [], Some file))"

text \<open>
  Lines 151 to 183, from the await on: \<open>s\<close> is the render the handler was called in,
  \<open>cur\<close> the state when the extraction settles. (Resetting the file input element is
  not modelled.)
\<close>

definition handleFileUpload_settle ::
  "state \<Rightarrow> File \<Rightarrow> bool \<Rightarrow> read_outcome \<Rightarrow> upload_clock \<Rightarrow> state \<Rightarrow> state \<times> effect list" where
  "handleFileUpload_settle s file pdfjsLib reading clock cur =
     (case extractTextFromPDF s pdfjsLib reading of
        (Inr extractedText, console) \<Rightarrow>
          (cur\<lparr>uploadedFiles := uploadedFiles cur @ [newFile file extractedText],
                messages := messages cur @ [fileMessage clock file],
                isProcessingFile := False\<rparr>,
           console)
      | (Inl error, console) \<Rightarrow>
          (cur\<lparr>isProcessingFile := False\<rparr>,
           console @ [ConsoleError ''Error processing PDF:'' error,
                  Alert ''Failed to process PDF file. Please try again.'']))"

text \<open>\<^verbatim>\<open>handleFileUpload\<close> run without interruption from a state \<open>s\<close>.\<close>

definition handleFileUpload ::
  "state \<Rightarrow> File option \<Rightarrow> bool \<Rightarrow> read_outcome \<Rightarrow> upload_clock \<Rightarrow> state \<times> effect list" where
  "handleFileUpload s chosen pdfjsLib reading clock =
     (case handleFileUpload_begin s chosen of
        (s', effects, None) \<Rightarrow> (s', effects)
      | (s', effects, Some file) \<Rightarrow>
          (let (s'', effects') = handleFileUpload_settle s file pdfjsLib reading clock s'
           in (s'', effects @ effects')))"

text \<open>Lines 186 to 188.\<close>

definition removeFile :: "nat \<Rightarrow> state \<Rightarrow> state" where
  "removeFile index s =
     s\<lparr>uploadedFiles := map snd (filter (\<lambda>(i, _). i \<noteq> index) (enumerate 0 (uploadedFiles s)))\<rparr>"

subsection \<open>The component over time\<close>

text \<open>
  The component together with its suspended handlers: every suspended \<^verbatim>\<open>handleSend\<close>
  keeps the history of its request, every suspended \<^verbatim>\<open>handleFileUpload\<close> the render it
  was called in and its file. An event is a user action or the settling of an awaited
  promise; each handler runs in a render that shows all earlier stores.
\<close>

record system =
  ui :: state
  sends :: "GeminiContent list list"
  uploads :: "(state \<times> File) list"
  trace :: "effect list"

datatype event =
    SendPressed send_clock
  | FetchSettles nat fetch_outcome send_clock
  | FileChosen "File option"
  | ExtractionSettles nat bool read_outcome upload_clock
  | RemovePressed nat
  | InputChanged string
  | PdfJsLoads

definition drop_nth :: "nat \<Rightarrow> 'a list \<Rightarrow> 'a list" where
  "drop_nth k xs = take k xs @ drop (Suc k) xs"

fun step :: "system \<Rightarrow> event \<Rightarrow> system" where
  "step \<sigma> (SendPressed clock) =
     (case handleSend_begin (ui \<sigma>) clock of
        None \<Rightarrow> \<sigma>
      | Some (s', history, effects) \<Rightarrow>
          \<sigma>\<lparr>ui := s', sends := sends \<sigma> @ [history], trace := trace \<sigma> @ effects\<rparr>)"
| "step \<sigma> (FetchSettles k outcome clock) =
     (if k < length (sends \<sigma>) then
        (let (s', effects) = handleSend_settle (sends \<sigma> ! k) outcome clock (ui \<sigma>)
         in \<sigma>\<lparr>ui := s', sends := drop_nth k (sends \<sigma>), trace := trace \<sigma> @ effects\<rparr>)
      else \<sigma>)"
| "step \<sigma> (FileChosen chosen) =
     (case handleFileUpload_begin (ui \<sigma>) chosen of
        (s', effects, None) \<Rightarrow> \<sigma>\<lparr>ui := s', trace := trace \<sigma> @ effects\<rparr>
      | (s', effects, Some file) \<Rightarrow>
          \<sigma>\<lparr>ui := s', uploads := uploads \<sigma> @ [(ui \<sigma>, file)], trace := trace \<sigma> @ effects\<rparr>)"
| "step \<sigma> (ExtractionSettles k pdfjsLib reading clock) =
     (if k < length (uploads \<sigma>) then
        (let (s, file) = uploads \<sigma> ! k;
             (s', effects) = handleFileUpload_settle s file pdfjsLib reading clock (ui \<sigma>)
         in \<sigma>\<lparr>ui := s', uploads := drop_nth k (uploads \<sigma>), trace := trace \<sigma> @ effects\<rparr>)
      else \<sigma>)"
| "step \<sigma> (RemovePressed index) = \<sigma>\<lparr>ui := removeFile index (ui \<sigma>)\<rparr>"
| "step \<sigma> (InputChanged v) = \<sigma>\<lparr>ui := (ui \<sigma>)\<lparr>input := v\<rparr>\<rparr>"
| "step \<sigma> PdfJsLoads = \<sigma>\<lparr>ui := (ui \<sigma>)\<lparr>pdfJsLoaded := True\<rparr>\<rparr>"

definition run :: "system \<Rightarrow> event list \<Rightarrow> system" where
  "run \<sigma> events = foldl step \<sigma> events"

text \<open>A component with no handler suspended.\<close>

definition idle :: "state \<Rightarrow> system" where
  "idle s = \<lparr>ui = s, sends = [], uploads = [], trace = []\<rparr>"

text \<open>
  The state after mounting (lines 36 to 45 and the effects of lines 52 to 87):
  \<open>loaded\<close> tells whether \<^verbatim>\<open>window.pdfjsLib\<close> was there already.
\<close>

definition mounted :: "int \<Rightarrow> bool \<Rightarrow> state" where
  "mounted now loaded =
     \<lparr>messages =
        [\<lparr>id_msg = ''welcome'',
          sender = Assistant,
          text_msg = JStr ''Hi, how can I help you today? You can also upload PDF files for me to analyze!'',
          timestamp = now,
          hasAttachment = None,
          attachmentName = None\<rparr>],
      conversationHistory = [],
      input = [],
      isTyping = False,
      uploadedFiles = [],
      isProcessingFile = False,
      pdfJsLoaded = loaded\<rparr>"

text \<open>
  Every suspended \<^verbatim>\<open>handleSend\<close> was started from the current history, and while
  one is suspended the in-flight flag is set: so at most one is.
\<close>

definition consistent :: "system \<Rightarrow> bool" where
  "consistent \<sigma> \<longleftrightarrow>
     (case sends \<sigma> of
        [] \<Rightarrow> True
      | [history] \<Rightarrow>
          isTyping (ui \<sigma>) \<and> butlast history = conversationHistory (ui \<sigma>) \<and> history \<noteq> []
      | _ \<Rightarrow> False)"

section \<open>Properties\<close>

subsection \<open>The completion service call\<close>

lemma try_fails: "fails outcome \<Longrightarrow> \<exists>e. callGeminiAPI_try h outcome = Inl e"
  by (auto simp: fails_def callGeminiAPI_try_def text_path_def
      split: fetch_outcome.splits json_outcome.splits)

lemma try_succeeds:
  "\<not> fails outcome \<Longrightarrow> \<exists>v. callGeminiAPI_try h outcome = Inr (v, h @ [aiContent v])"
  by (auto simp: fails_def callGeminiAPI_try_def text_path_def Let_def
      split: fetch_outcome.splits json_outcome.splits json.splits)

lemma settle_fails:
  "fails outcome \<Longrightarrow>
   \<exists>e. callGeminiAPI_settle h outcome cur =
     (Inr (JStr api_error), cur, [ConsoleError ''Error calling Gemini API:'' e])"
  using try_fails[of outcome h] by (auto simp: callGeminiAPI_settle_def)

lemma settle_succeeds:
  "\<not> fails outcome \<Longrightarrow>
   \<exists>v. callGeminiAPI_settle h outcome cur =
     (Inr v, cur\<lparr>conversationHistory := h @ [aiContent v]\<rparr>, [])"
  using try_succeeds[of outcome h] by (auto simp: callGeminiAPI_settle_def)

lemma text_path_not_null: "data \<noteq> JNull \<Longrightarrow> \<exists>v. text_path data = Inr v"
  by (cases data) (simp_all add: text_path_def)

lemma falsy_cases:
  "\<not> truthy v \<longleftrightarrow> v \<in> {None, Some JNull, Some (JBool False), Some (JNum 0), Some (JStr [])}"
proof (cases v)
  case None
  then show ?thesis by simp
next
  case (Some j)
  then show ?thesis by (cases j) auto
qed

lemma truthy_Some: "truthy v \<Longrightarrow> v = Some (the v)"
  by (cases v) simp_all

text \<open>
  The path is the one the specification names: the \<^verbatim>\<open>text\<close> of the first part of the
  content of the first candidate.
\<close>

lemma text_path_shape:
  assumes "map_of response ''candidates'' = Some (JArr (JObj candidate # candidates))"
    and "map_of candidate ''content'' = Some (JObj cont)"
    and "map_of cont ''parts'' = Some (JArr (JObj part # rest))"
  shows "text_path (JObj response) = Inr (map_of part ''text'')"
  using assms by (simp add: text_path_def)

lemma callGeminiAPI_returns:
  "\<exists>v s' effects. callGeminiAPI s message includeFileContent outcome = (Inr v, s', effects)"
proof (cases "fails outcome")
  case True
  from settle_fails[OF this, of "updatedHistory s message includeFileContent" s]
  show ?thesis by (auto simp: callGeminiAPI_def Let_def)
next
  case False
  from settle_succeeds[OF this, of "updatedHistory s message includeFileContent" s]
  show ?thesis by (auto simp: callGeminiAPI_def Let_def)
qed

lemma callGeminiAPI_value:
  "fst (callGeminiAPI s message includeFileContent outcome) = Inr v \<Longrightarrow>
   v = JStr api_error \<or> v = JStr no_response
   \<or> (\<exists>status data. outcome = FetchResolves status (JsonResolves data)
         \<and> text_path data = Inr (Some v))"
  by (auto simp: callGeminiAPI_def callGeminiAPI_settle_def callGeminiAPI_try_def
        or_no_response_def Let_def
      split: prod.splits sum.splits fetch_outcome.splits json_outcome.splits if_splits
      dest: truthy_Some)

subsection \<open>An uninterrupted send\<close>

lemma handleSend_begin_Some:
  "trim (input s) \<noteq> [] \<Longrightarrow> \<not> isTyping s \<Longrightarrow>
   handleSend_begin s clock =
     Some (s\<lparr>messages := messages s @ [userMessage clock (trim (input s))],
              input := [], isTyping := True\<rparr>,
           updatedHistory s (trim (input s)) (length (uploadedFiles s) > 0),
           [Fetch (updatedHistory s (trim (input s)) (length (uploadedFiles s) > 0))])"
  by (simp add: handleSend_begin_def Let_def)

lemma handleSend_failure:
  assumes "fails outcome" and "trim (input s) \<noteq> []" and "\<not> isTyping s"
  shows "\<exists>e. handleSend s clock outcome =
     (s\<lparr>messages := messages s @ [userMessage clock (trim (input s)),
                                   assistantMessage clock (JStr api_error)],
        input := [], isTyping := False, uploadedFiles := []\<rparr>,
      [Fetch (updatedHistory s (trim (input s)) (length (uploadedFiles s) > 0)),
       ConsoleError ''Error calling Gemini API:'' e])"
proof -
  let ?h = "updatedHistory s (trim (input s)) (length (uploadedFiles s) > 0)"
  let ?s1 = "s\<lparr>messages := messages s @ [userMessage clock (trim (input s))],
               input := [], isTyping := True\<rparr>"
  obtain e where "callGeminiAPI_settle ?h outcome ?s1 =
      (Inr (JStr api_error), ?s1, [ConsoleError ''Error calling Gemini API:'' e])"
    using settle_fails[OF assms(1)] by blast
  then show ?thesis
    by (intro exI[of _ e])
       (simp add: handleSend_def handleSend_begin_Some[OF assms(2,3)] handleSend_settle_def)
qed

lemma handleSend_success:
  assumes "\<not> fails outcome" and "trim (input s) \<noteq> []" and "\<not> isTyping s"
  shows "\<exists>v. handleSend s clock outcome =
     (s\<lparr>messages := messages s @ [userMessage clock (trim (input s)), assistantMessage clock v],
        conversationHistory :=
          updatedHistory s (trim (input s)) (length (uploadedFiles s) > 0) @ [aiContent v],
        input := [], isTyping := False, uploadedFiles := []\<rparr>,
      [Fetch (updatedHistory s (trim (input s)) (length (uploadedFiles s) > 0))])"
proof -
  let ?h = "updatedHistory s (trim (input s)) (length (uploadedFiles s) > 0)"
  let ?s1 = "s\<lparr>messages := messages s @ [userMessage clock (trim (input s))],
               input := [], isTyping := True\<rparr>"
  obtain v where "callGeminiAPI_settle ?h outcome ?s1 =
      (Inr v, ?s1\<lparr>conversationHistory := ?h @ [aiContent v]\<rparr>, [])"
    using settle_succeeds[OF assms(1)] by blast
  then show ?thesis
    by (intro exI[of _ v])
       (simp add: handleSend_def handleSend_begin_Some[OF assms(2,3)] handleSend_settle_def)
qed

text \<open>Every send that passes the guard ends with no attachment pending.\<close>

lemma handleSend_attachments:
  assumes "trim (input s) \<noteq> []" and "\<not> isTyping s"
  shows "uploadedFiles (fst (handleSend s clock outcome)) = []"
  using handleSend_failure[OF _ assms, of outcome clock]
    handleSend_success[OF _ assms, of outcome clock]
  by (cases "fails outcome") auto

lemma messageForAPI_none: "messageForAPI [] t b = t"
  by (simp add: messageForAPI_def)

lemma messageForAPI_doc:
  "messageForAPI [\<lparr>name = ''doc.pdf'', content = ''X'', type = Pdf\<rparr>] ''Summarize'' True
     = ''Context from uploaded files:\<newline>Content from doc.pdf:\<newline>X\<newline>\<newline>User question: Summarize''"
  by (simp add: messageForAPI_def)

subsection \<open>The extraction loop\<close>

lemma extract_pages_done:
  "length pdf < i \<Longrightarrow> extract_pages pdf i acc c = (Inr acc, c)"
  by (subst extract_pages.simps) simp

lemma extract_pages_next:
  "i \<le> length pdf \<Longrightarrow> getPage pdf i = TextContent items \<Longrightarrow>
   extract_pages pdf i acc c =
     extract_pages pdf (Suc i) (acc @ page_block i items)
       (c @ [ConsoleLog [''Page '' @ digits i @ '' extracted:'', join '' '' items]])"
  by (subst extract_pages.simps) (simp add: page_block_def Let_def)

lemma extract_pages_stop:
  "i \<le> length pdf \<Longrightarrow> \<forall>fr. getPage pdf i \<noteq> TextContent fr \<Longrightarrow>
   extract_pages pdf i acc c = (Inl PdfJsRejected, c)"
  by (subst extract_pages.simps) (simp split: page_outcome.splits)

lemma getPage_map:
  "1 \<le> i \<Longrightarrow> i \<le> length pages \<Longrightarrow>
   getPage (map TextContent pages) i = TextContent (pages ! (i - 1))"
  by (simp add: getPage_def)

lemma enumerate_drop_step:
  assumes "1 \<le> i" and "i \<le> length pages"
  shows "enumerate i (drop (i - 1) pages)
           = (i, pages ! (i - 1)) # enumerate (Suc i) (drop i pages)"
proof -
  have "drop (i - 1) pages = pages ! (i - 1) # drop (Suc (i - 1)) pages"
    using assms by (intro Cons_nth_drop_Suc[symmetric]) simp
  with assms show ?thesis by simp
qed

text \<open>
  Entered at page \<open>i\<close> of a document all of whose pages give their text, the loop adds
  the blocks of the pages from \<open>i\<close> on, in order, and one console line for each.
\<close>

lemma extract_pages_all:
  "1 \<le> i \<Longrightarrow> i \<le> Suc (length pages) \<Longrightarrow>
   extract_pages (map TextContent pages) i acc c =
     (Inr (acc @ concat (map (\<lambda>(j, fr). page_block j fr) (enumerate i (drop (i - 1) pages)))),
      c @ map (\<lambda>(j, fr). ConsoleLog [''Page '' @ digits j @ '' extracted:'', join '' '' fr])
            (enumerate i (drop (i - 1) pages)))"
proof (induction "Suc (length pages) - i" arbitrary: i acc c)
  case 0
  then have "length (map TextContent pages) < i" by simp
  moreover from 0 have "drop (i - 1) pages = []" by simp
  ultimately show ?case by (simp only: extract_pages_done) simp
next
  case (Suc n)
  then have le: "i \<le> length pages" by simp
  have IH: "extract_pages (map TextContent pages) (Suc i) acc' c' =
     (Inr (acc' @ concat (map (\<lambda>(j, fr). page_block j fr) (enumerate (Suc i) (drop i pages)))),
      c' @ map (\<lambda>(j, fr). ConsoleLog [''Page '' @ digits j @ '' extracted:'', join '' '' fr])
            (enumerate (Suc i) (drop i pages)))" for acc' c'
    using Suc.hyps(1)[of "Suc i" acc' c'] Suc.hyps(2) le by simp
  have "extract_pages (map TextContent pages) i acc c =
     extract_pages (map TextContent pages) (Suc i) (acc @ page_block i (pages ! (i - 1)))
       (c @ [ConsoleLog [''Page '' @ digits i @ '' extracted:'', join '' '' (pages ! (i - 1))]])"
    using le Suc.prems(1) by (intro extract_pages_next) (simp_all add: getPage_map)
  then show ?case
    using Suc.prems le by (simp only: IH enumerate_drop_step) simp
qed

text \<open>A page at or after \<open>i\<close> that does not give its text makes the loop throw.\<close>

lemma extract_pages_fail:
  "1 \<le> i \<Longrightarrow> i \<le> k \<Longrightarrow> k \<le> length pdf \<Longrightarrow> \<forall>fr. getPage pdf k \<noteq> TextContent fr \<Longrightarrow>
   \<exists>e. fst (extract_pages pdf i acc c) = Inl e"
proof (induction "k - i" arbitrary: i acc c)
  case 0
  then have "i = k" by simp
  with 0 show ?case by (simp add: extract_pages_stop)
next
  case (Suc n)
  then have lt: "i < k" by simp
  then have le: "i \<le> length pdf" using Suc.prems by simp
  show ?case
  proof (cases "\<exists>items. getPage pdf i = TextContent items")
    case True
    then obtain items where items: "getPage pdf i = TextContent items" by blast
    have "\<exists>e. fst (extract_pages pdf (Suc i) acc' c') = Inl e" for acc' c'
      using Suc.hyps(1)[of "Suc i" acc' c'] Suc.hyps(2) Suc.prems lt by simp
    then show ?thesis by (simp only: extract_pages_next[OF le items])
  next
    case False
    with le show ?thesis by (simp add: extract_pages_stop)
  qed
qed

lemma set_getPage:
  assumes "p \<in> set pdf"
  shows "\<exists>k. 1 \<le> k \<and> k \<le> length pdf \<and> getPage pdf k = p"
proof -
  obtain j where "j < length pdf" "pdf ! j = p"
    using assms by (auto simp: in_set_conv_nth)
  then have "1 \<le> Suc j \<and> Suc j \<le> length pdf \<and> getPage pdf (Suc j) = p"
    by (simp add: getPage_def)
  then show ?thesis by blast
qed

lemma extract_pages_whole:
  "extract_pages (map TextContent pages) 1 [] c =
     (Inr (spec_extract pages),
      c @ map (\<lambda>(j, fr). ConsoleLog [''Page '' @ digits j @ '' extracted:'', join '' '' fr])
            (enumerate 1 pages))"
  using extract_pages_all[of 1 pages "[]" c] by (simp add: spec_extract_def)

subsection \<open>The component over time\<close>

text \<open>The later part of a send either took the failure branch of the call or stored a reply.\<close>

lemma handleSend_settle_cases:
  "(\<exists>e. handleSend_settle h outcome clock cur =
      (cur\<lparr>messages := messages cur @ [assistantMessage clock (JStr api_error)], uploadedFiles := [], isTyping := False\<rparr>,
       [ConsoleError ''Error calling Gemini API:'' e]))
   \<or> (\<exists>v. handleSend_settle h outcome clock cur =
      (cur\<lparr>conversationHistory := h @ [aiContent v],
           messages := messages cur @ [assistantMessage clock v], uploadedFiles := [], isTyping := False\<rparr>, []))"
proof (cases "fails outcome")
  case True
  from settle_fails[OF this, of h cur] show ?thesis
    by (auto simp: handleSend_settle_def)
next
  case False
  from settle_succeeds[OF this, of h cur] show ?thesis
    by (auto simp: handleSend_settle_def)
qed

lemma handleSend_settle_messages:
  "prefix (messages cur) (messages (fst (handleSend_settle h outcome clock cur)))"
  using handleSend_settle_cases[of h outcome clock cur] by auto

lemma handleSend_settle_isTyping:
  "\<not> isTyping (fst (handleSend_settle h outcome clock cur))"
  using handleSend_settle_cases[of h outcome clock cur] by auto

lemma handleSend_settle_history:
  "butlast h = conversationHistory cur \<Longrightarrow> h \<noteq> [] \<Longrightarrow>
   prefix (conversationHistory cur) (conversationHistory (fst (handleSend_settle h outcome clock cur)))"
proof -
  assume a: "butlast h = conversationHistory cur" "h \<noteq> []"
  then have "prefix (conversationHistory cur) h"
    by (metis append_butlast_last_id prefixI)
  then show ?thesis
    using handleSend_settle_cases[of h outcome clock cur] by (auto intro: prefix_order.trans)
qed

lemma handleFileUpload_settle_cases:
  "(\<exists>t fx. handleFileUpload_settle s file lib reading clock cur =
      (cur\<lparr>uploadedFiles := uploadedFiles cur @ [newFile file t],
           messages := messages cur @ [fileMessage clock file], isProcessingFile := False\<rparr>, fx))
   \<or> (\<exists>fx. handleFileUpload_settle s file lib reading clock cur = (cur\<lparr>isProcessingFile := False\<rparr>, fx))"
  by (cases "extractTextFromPDF s lib reading")
     (auto simp: handleFileUpload_settle_def split: sum.splits)

lemma handleFileUpload_begin_cases:
  "\<exists>fx pending. handleFileUpload_begin s chosen = (s, fx, None)
      \<or> handleFileUpload_begin s chosen = (s\<lparr>isProcessingFile := True\<rparr>, fx, Some pending)"
  by (auto simp: handleFileUpload_begin_def split: option.splits)

lemma step_messages: "prefix (messages (ui \<sigma>)) (messages (ui (step \<sigma> e)))"
proof (cases e)
  case (SendPressed clock)
  then show ?thesis
    by (auto simp: handleSend_begin_def Let_def split: option.splits)
next
  case (FetchSettles k outcome clock)
  then show ?thesis
    using handleSend_settle_messages[of "ui \<sigma>" "sends \<sigma> ! k" outcome clock]
    by (auto split: prod.splits)
next
  case (FileChosen chosen)
  then show ?thesis
    using handleFileUpload_begin_cases[of "ui \<sigma>" chosen]
    by (auto split: prod.splits option.splits)
next
  case (ExtractionSettles k lib reading clock)
  then show ?thesis
    using handleFileUpload_settle_cases[of "fst (uploads \<sigma> ! k)" "snd (uploads \<sigma> ! k)" lib reading clock "ui \<sigma>"]
    by (auto split: prod.splits)
next
  case (RemovePressed index)
  then show ?thesis by (simp add: removeFile_def)
next
  case (InputChanged v)
  then show ?thesis by simp
next
  case PdfJsLoads
  then show ?thesis by simp
qed

lemma step_history:
  assumes "consistent \<sigma>"
  shows "consistent (step \<sigma> e) \<and> prefix (conversationHistory (ui \<sigma>)) (conversationHistory (ui (step \<sigma> e)))"
proof (cases e)
  case (SendPressed clock)
  show ?thesis
  proof (cases "handleSend_begin (ui \<sigma>) clock")
    case None
    with SendPressed assms show ?thesis by simp
  next
    case (Some r)
    then have g: "trim (input (ui \<sigma>)) \<noteq> []" "\<not> isTyping (ui \<sigma>)"
      by (auto simp: handleSend_begin_def Let_def split: if_splits)
    with assms have "sends \<sigma> = []"
      by (auto simp: consistent_def split: list.splits)
    with SendPressed g show ?thesis
      by (simp add: handleSend_begin_Some consistent_def updatedHistory_def)
  qed
next
  case (FetchSettles k outcome clock)
  show ?thesis
  proof (cases "k < length (sends \<sigma>)")
    case False
    with FetchSettles assms show ?thesis by simp
  next
    case True
    with assms obtain h where h: "sends \<sigma> = [h]" "k = 0" "butlast h = conversationHistory (ui \<sigma>)" "h \<noteq> []"
      by (auto simp: consistent_def split: list.splits)
    with FetchSettles handleSend_settle_history[OF h(3,4), of outcome clock]
    show ?thesis
      by (auto simp: consistent_def drop_nth_def split: prod.splits)
  qed
next
  case (FileChosen chosen)
  then show ?thesis
    using assms handleFileUpload_begin_cases[of "ui \<sigma>" chosen]
    by (auto simp: consistent_def split: prod.splits option.splits list.splits)
next
  case (ExtractionSettles k lib reading clock)
  then show ?thesis
    using assms handleFileUpload_settle_cases[of "fst (uploads \<sigma> ! k)" "snd (uploads \<sigma> ! k)" lib reading clock "ui \<sigma>"]
    by (auto simp: consistent_def split: prod.splits list.splits)
next
  case (RemovePressed index)
  then show ?thesis using assms by (auto simp: removeFile_def consistent_def split: list.splits)
next
  case (InputChanged v)
  then show ?thesis using assms by (auto simp: consistent_def split: list.splits)
next
  case PdfJsLoads
  then show ?thesis using assms by (auto simp: consistent_def split: list.splits)
qed

lemma run_messages: "prefix (messages (ui \<sigma>)) (messages (ui (run \<sigma> es)))"
proof (induction es arbitrary: \<sigma>)
  case Nil
  then show ?case by (simp add: run_def)
next
  case (Cons e es)
  have "prefix (messages (ui \<sigma>)) (messages (ui (step \<sigma> e)))" by (rule step_messages)
  also have "prefix \<dots> (messages (ui (run (step \<sigma> e) es)))" by (rule Cons.IH)
  finally show ?case by (simp add: run_def)
qed

lemma run_history:
  "consistent \<sigma> \<Longrightarrow>
   consistent (run \<sigma> es) \<and> prefix (conversationHistory (ui \<sigma>)) (conversationHistory (ui (run \<sigma> es)))"
proof (induction es arbitrary: \<sigma>)
  case Nil
  then show ?case by (simp add: run_def)
next
  case (Cons e es)
  from step_history[OF Cons.prems, of e]
  have c: "consistent (step \<sigma> e)"
    and p: "prefix (conversationHistory (ui \<sigma>)) (conversationHistory (ui (step \<sigma> e)))" by simp_all
  from Cons.IH[OF c] p show ?case
    by (auto simp: run_def intro: prefix_order.trans)
qed

lemma run_append: "run \<sigma> (es @ es') = run (run \<sigma> es) es'"
  by (simp add: run_def)

lemma consistent_idle: "consistent (idle s)"
  by (simp add: consistent_def idle_def)

text \<open>
  The uninterrupted runs of the handlers are the runs of the component in which the
  awaited promise settles right after the user's action.
\<close>

lemma run_send:
  "run (idle s) [SendPressed clock, FetchSettles 0 outcome clock]
     = \<lparr>ui = fst (handleSend s clock outcome), sends = [], uploads = [],
        trace = snd (handleSend s clock outcome)\<rparr>"
proof (cases "handleSend_begin s clock")
  case None
  then show ?thesis by (simp add: run_def idle_def handleSend_def)
next
  case (Some r)
  then obtain s' h fx where "handleSend_begin s clock = Some (s', h, fx)"
    by (cases r) auto
  then show ?thesis
    by (simp add: run_def idle_def handleSend_def drop_nth_def split: prod.splits)
qed

lemma run_upload:
  "run (idle s) [FileChosen chosen, ExtractionSettles 0 pdfjsLib reading clock]
     = \<lparr>ui = fst (handleFileUpload s chosen pdfjsLib reading clock), sends = [], uploads = [],
        trace = snd (handleFileUpload s chosen pdfjsLib reading clock)\<rparr>"
proof -
  obtain s' fx started where b: "handleFileUpload_begin s chosen = (s', fx, started)"
    by (cases "handleFileUpload_begin s chosen") auto
  show ?thesis
  proof (cases started)
    case None
    with b show ?thesis by (simp add: run_def idle_def handleFileUpload_def)
  next
    case (Some chosen_file)
    with b show ?thesis
      by (simp add: run_def idle_def handleFileUpload_def drop_nth_def split: prod.splits)
  qed
qed

subsection \<open>Claims about sending\<close>

text \<open>
  Claim C1 says that a send whose completion-service call fails leaves the pending
  attachments as they were. The code does not: \<^verbatim>\<open>callGeminiAPI\<close> catches the
  failure and returns the apology as if it were a reply, so \<^verbatim>\<open>handleSend\<close> goes on
  to \<^verbatim>\<open>setUploadedFiles([])\<close>, which its own comment reserves for a successful send.
  Here a send with one pending attachment, whose request is rejected by the network,
  ends with no attachment pending.
\<close>

theorem failed_send_clears_attachments:
  "uploadedFiles (fst (handleSend
      \<lparr>messages = [], conversationHistory = [], input = ''Summarize'', isTyping = False,
       uploadedFiles = [\<lparr>name = ''doc.pdf'', content = ''X'', type = Pdf\<rparr>],
       isProcessingFile = False, pdfJsLoaded = True\<rparr>
      \<lparr>user_id_now = 1000, user_now = 1000, assistant_id_now = 2000, assistant_now = 2000\<rparr>
      FetchRejects)) = []"
  by (simp add: handleSend_def handleSend_begin_def handleSend_settle_def
      callGeminiAPI_settle_def callGeminiAPI_try_def trim_def isWhiteSpace_def Let_def)

text \<open>
  Claim C2: a send whose completion-service call fails adds to the conversation log,
  after the user's message, exactly one assistant message, whose text is the fixed
  apology of \<^verbatim>\<open>callGeminiAPI\<close>, and leaves the model session as it was.
\<close>

theorem failed_send_apology_and_session:
  assumes "fails outcome" and "trim (input s) \<noteq> []" and "\<not> isTyping s"
  shows "messages (fst (handleSend s clock outcome))
           = messages s @ [userMessage clock (trim (input s)),
                           assistantMessage clock (JStr api_error)]
         \<and> sender (userMessage clock (trim (input s))) = User
         \<and> sender (assistantMessage clock (JStr api_error)) = Assistant
         \<and> text_msg (assistantMessage clock (JStr api_error)) = JStr api_error
         \<and> conversationHistory (fst (handleSend s clock outcome)) = conversationHistory s"
  using handleSend_failure[OF assms, of clock]
  by (auto simp: userMessage_def assistantMessage_def)

theorem failed_send_apology_and_session_witness:
  "fails (FetchResolves 500 JsonRejects)
   \<and> messages (fst (handleSend
        \<lparr>messages = [], conversationHistory = [], input = ''Hello'', isTyping = False,
         uploadedFiles = [], isProcessingFile = False, pdfJsLoaded = True\<rparr>
        \<lparr>user_id_now = 1000, user_now = 1001, assistant_id_now = 2000, assistant_now = 2001\<rparr>
        (FetchResolves 500 JsonRejects)))
      = [\<lparr>id_msg = ''user-1000'', sender = User, text_msg = JStr ''Hello'', timestamp = 1001,
          hasAttachment = None, attachmentName = None\<rparr>,
         \<lparr>id_msg = ''assistant-2000'', sender = Assistant,
          text_msg = JStr ''Sorry, I encountered an error while processing your request. Please try again.'',
          timestamp = 2001, hasAttachment = None, attachmentName = None\<rparr>]
   \<and> conversationHistory (fst (handleSend
        \<lparr>messages = [], conversationHistory = [], input = ''Hello'', isTyping = False,
         uploadedFiles = [], isProcessingFile = False, pdfJsLoaded = True\<rparr>
        \<lparr>user_id_now = 1000, user_now = 1001, assistant_id_now = 2000, assistant_now = 2001\<rparr>
        (FetchResolves 500 JsonRejects))) = []"
proof -
  have f: "fails (FetchResolves 500 JsonRejects)"
    by (simp add: fails_def ok_def)
  have t: "trim ''Hello'' = ''Hello''"
    by (simp add: trim_def isWhiteSpace_def)
  show ?thesis
    using f failed_send_apology_and_session[OF f, of
        "\<lparr>messages = [], conversationHistory = [], input = ''Hello'', isTyping = False,
         uploadedFiles = [], isProcessingFile = False, pdfJsLoaded = True\<rparr>"
        "\<lparr>user_id_now = 1000, user_now = 1001, assistant_id_now = 2000, assistant_now = 2001\<rparr>"]
    by (simp add: t userMessage_def assistantMessage_def api_error_def show_int_def digits.simps)
qed

text \<open>
  Claim C3: with the one pending attachment \<^verbatim>\<open>doc.pdf\<close> of content \<^verbatim>\<open>X\<close> and the
  input \<^verbatim>\<open>Summarize\<close>, the user turn of the request, which a successful send appends to
  the model session, has for text the context block followed by the question, while the
  user's message in the conversation log has the text \<^verbatim>\<open>Summarize\<close>; with no pending
  attachment the turn's text is the trimmed input.
\<close>

theorem composed_turn_and_plain_message:
  "(trim (input s) = ''Summarize'' \<and> \<not> isTyping s
      \<and> uploadedFiles s = [\<lparr>name = ''doc.pdf'', content = ''X'', type = Pdf\<rparr>] \<longrightarrow>
      hd (snd (handleSend s clock outcome)) =
        Fetch (conversationHistory s @
          [\<lparr>role = RoleUser, parts = [\<lparr>text_part = JStr
             ''Context from uploaded files:\<newline>Content from doc.pdf:\<newline>X\<newline>\<newline>User question: Summarize''\<rparr>]\<rparr>])
      \<and> (\<not> fails outcome \<longrightarrow>
            (\<exists>v. conversationHistory (fst (handleSend s clock outcome)) =
              conversationHistory s @
                [\<lparr>role = RoleUser, parts = [\<lparr>text_part = JStr
                   ''Context from uploaded files:\<newline>Content from doc.pdf:\<newline>X\<newline>\<newline>User question: Summarize''\<rparr>]\<rparr>,
                 aiContent v]))
      \<and> messages (fst (handleSend s clock outcome)) ! length (messages s)
            = userMessage clock ''Summarize''
      \<and> sender (userMessage clock ''Summarize'') = User
      \<and> text_msg (userMessage clock ''Summarize'') = JStr ''Summarize'')
   \<and> (trim (input s) \<noteq> [] \<and> \<not> isTyping s \<and> uploadedFiles s = [] \<longrightarrow>
      hd (snd (handleSend s clock outcome)) =
        Fetch (conversationHistory s @
          [\<lparr>role = RoleUser, parts = [\<lparr>text_part = JStr (trim (input s))\<rparr>]\<rparr>])
      \<and> (\<not> fails outcome \<longrightarrow>
            (\<exists>v. conversationHistory (fst (handleSend s clock outcome)) =
              conversationHistory s @
                [\<lparr>role = RoleUser, parts = [\<lparr>text_part = JStr (trim (input s))\<rparr>]\<rparr>,
                 aiContent v])))"
proof (intro conjI impI; (elim conjE)?)
  assume a: "trim (input s) = ''Summarize''" "\<not> isTyping s"
    "uploadedFiles s = [\<lparr>name = ''doc.pdf'', content = ''X'', type = Pdf\<rparr>]"
  then have g: "trim (input s) \<noteq> []" by simp
  have h: "updatedHistory s (trim (input s)) (length (uploadedFiles s) > 0) =
      conversationHistory s @
          [\<lparr>role = RoleUser, parts = [\<lparr>text_part = JStr
             ''Context from uploaded files:\<newline>Content from doc.pdf:\<newline>X\<newline>\<newline>User question: Summarize''\<rparr>]\<rparr>]"
    unfolding updatedHistory_def a(1) a(3) by (simp add: messageForAPI_doc newUserContent_def)
  show "hd (snd (handleSend s clock outcome)) =
        Fetch (conversationHistory s @
          [\<lparr>role = RoleUser, parts = [\<lparr>text_part = JStr
             ''Context from uploaded files:\<newline>Content from doc.pdf:\<newline>X\<newline>\<newline>User question: Summarize''\<rparr>]\<rparr>])"
    using handleSend_failure[OF _ g a(2), of outcome clock]
      handleSend_success[OF _ g a(2), of outcome clock]
    unfolding h by (cases "fails outcome") auto
  show "messages (fst (handleSend s clock outcome)) ! length (messages s)
          = userMessage clock ''Summarize''"
    using handleSend_failure[OF _ g a(2), of outcome clock]
      handleSend_success[OF _ g a(2), of outcome clock]
    unfolding a(1) by (cases "fails outcome") auto
  show "sender (userMessage clock ''Summarize'') = User"
    by (simp add: userMessage_def)
  show "text_msg (userMessage clock ''Summarize'') = JStr ''Summarize''"
    by (simp add: userMessage_def)
  assume "\<not> fails outcome"
  then show "\<exists>v. conversationHistory (fst (handleSend s clock outcome)) =
              conversationHistory s @
                [\<lparr>role = RoleUser, parts = [\<lparr>text_part = JStr
                   ''Context from uploaded files:\<newline>Content from doc.pdf:\<newline>X\<newline>\<newline>User question: Summarize''\<rparr>]\<rparr>,
                 aiContent v]"
    using handleSend_success[OF _ g a(2), of outcome clock] unfolding h by auto
next
  assume a: "trim (input s) \<noteq> []" "\<not> isTyping s" "uploadedFiles s = []"
  have h: "updatedHistory s (trim (input s)) (length (uploadedFiles s) > 0) =
      conversationHistory s @
        [\<lparr>role = RoleUser, parts = [\<lparr>text_part = JStr (trim (input s))\<rparr>]\<rparr>]"
    unfolding updatedHistory_def a(3) by (simp add: messageForAPI_none newUserContent_def)
  show "hd (snd (handleSend s clock outcome)) =
        Fetch (conversationHistory s @
          [\<lparr>role = RoleUser, parts = [\<lparr>text_part = JStr (trim (input s))\<rparr>]\<rparr>])"
    using handleSend_failure[OF _ a(1,2), of outcome clock]
      handleSend_success[OF _ a(1,2), of outcome clock]
    unfolding h by (cases "fails outcome") auto
  assume "\<not> fails outcome"
  then show "\<exists>v. conversationHistory (fst (handleSend s clock outcome)) =
              conversationHistory s @
                [\<lparr>role = RoleUser, parts = [\<lparr>text_part = JStr (trim (input s))\<rparr>]\<rparr>,
                 aiContent v]"
    using handleSend_success[OF _ a(1,2), of outcome clock] unfolding h by auto
qed

theorem composed_turn_and_plain_message_witness:
  "trim ''Summarize'' = ''Summarize''
   \<and> hd (snd (handleSend
        \<lparr>messages = [], conversationHistory = [], input = ''Summarize'', isTyping = False,
         uploadedFiles = [\<lparr>name = ''doc.pdf'', content = ''X'', type = Pdf\<rparr>],
         isProcessingFile = False, pdfJsLoaded = True\<rparr>
        \<lparr>user_id_now = 1000, user_now = 1001, assistant_id_now = 2000, assistant_now = 2001\<rparr>
        (FetchResolves 200 (JsonResolves (JObj [(''candidates'',
           JArr [JObj [(''content'', JObj [(''parts'', JArr [JObj [(''text'', JStr ''Summary'')]])])]])])))))
      = Fetch [\<lparr>role = RoleUser, parts = [\<lparr>text_part = JStr
          ''Context from uploaded files:\<newline>Content from doc.pdf:\<newline>X\<newline>\<newline>User question: Summarize''\<rparr>]\<rparr>]
   \<and> conversationHistory (fst (handleSend
        \<lparr>messages = [], conversationHistory = [], input = ''Summarize'', isTyping = False,
         uploadedFiles = [\<lparr>name = ''doc.pdf'', content = ''X'', type = Pdf\<rparr>],
         isProcessingFile = False, pdfJsLoaded = True\<rparr>
        \<lparr>user_id_now = 1000, user_now = 1001, assistant_id_now = 2000, assistant_now = 2001\<rparr>
        (FetchResolves 200 (JsonResolves (JObj [(''candidates'',
           JArr [JObj [(''content'', JObj [(''parts'', JArr [JObj [(''text'', JStr ''Summary'')]])])]])])))))
      = [\<lparr>role = RoleUser, parts = [\<lparr>text_part = JStr
          ''Context from uploaded files:\<newline>Content from doc.pdf:\<newline>X\<newline>\<newline>User question: Summarize''\<rparr>]\<rparr>,
         \<lparr>role = RoleModel, parts = [\<lparr>text_part = JStr ''Summary''\<rparr>]\<rparr>]
   \<and> map text_msg (messages (fst (handleSend
        \<lparr>messages = [], conversationHistory = [], input = ''Summarize'', isTyping = False,
         uploadedFiles = [\<lparr>name = ''doc.pdf'', content = ''X'', type = Pdf\<rparr>],
         isProcessingFile = False, pdfJsLoaded = True\<rparr>
        \<lparr>user_id_now = 1000, user_now = 1001, assistant_id_now = 2000, assistant_now = 2001\<rparr>
        (FetchResolves 200 (JsonResolves (JObj [(''candidates'',
           JArr [JObj [(''content'', JObj [(''parts'', JArr [JObj [(''text'', JStr ''Summary'')]])])]])]))))))
      = [JStr ''Summarize'', JStr ''Summary'']
   \<and> hd (snd (handleSend
        \<lparr>messages = [], conversationHistory = [], input = '' Hello '', isTyping = False,
         uploadedFiles = [], isProcessingFile = False, pdfJsLoaded = True\<rparr>
        \<lparr>user_id_now = 1000, user_now = 1001, assistant_id_now = 2000, assistant_now = 2001\<rparr>
        FetchRejects))
      = Fetch [\<lparr>role = RoleUser, parts = [\<lparr>text_part = JStr ''Hello''\<rparr>]\<rparr>]"
  using composed_turn_and_plain_message[of
      "\<lparr>messages = [], conversationHistory = [], input = ''Summarize'', isTyping = False,
         uploadedFiles = [\<lparr>name = ''doc.pdf'', content = ''X'', type = Pdf\<rparr>],
         isProcessingFile = False, pdfJsLoaded = True\<rparr>"
      "\<lparr>user_id_now = 1000, user_now = 1001, assistant_id_now = 2000, assistant_now = 2001\<rparr>"
      "FetchResolves 200 (JsonResolves (JObj [(''candidates'',
           JArr [JObj [(''content'', JObj [(''parts'', JArr [JObj [(''text'', JStr ''Summary'')]])])]])]))"]
  by (simp add: handleSend_def handleSend_begin_def handleSend_settle_def
      callGeminiAPI_settle_def callGeminiAPI_try_def text_path_def or_no_response_def ok_def
      updatedHistory_def newUserContent_def aiContent_def messageForAPI_def
      userMessage_def assistantMessage_def trim_def isWhiteSpace_def Let_def)

text \<open>
  Claim C4: a send whose completion-service call succeeds ends with no attachment
  pending, whatever was pending before; and so does the later part of a send, whatever
  the state it resumes in.
\<close>

theorem success_clears_attachments:
  "(\<not> fails outcome \<and> trim (input s) \<noteq> [] \<and> \<not> isTyping s \<longrightarrow>
      uploadedFiles (fst (handleSend s clock outcome)) = [])
   \<and> (\<not> fails outcome \<longrightarrow>
      uploadedFiles (fst (handleSend_settle history outcome clock cur)) = [])"
  using handleSend_success[of outcome s clock] settle_succeeds[of outcome history cur]
  by (auto simp: handleSend_settle_def)

theorem success_clears_attachments_witness:
  "\<not> fails (FetchResolves 200 (JsonResolves (JObj [(''candidates'',
           JArr [JObj [(''content'', JObj [(''parts'', JArr [JObj [(''text'', JStr ''Summary'')]])])]])])))
   \<and> trim ''Summarize'' \<noteq> []
   \<and> uploadedFiles (fst (handleSend
        \<lparr>messages = [], conversationHistory = [], input = ''Summarize'', isTyping = False,
         uploadedFiles = [\<lparr>name = ''doc.pdf'', content = ''X'', type = Pdf\<rparr>,
                          \<lparr>name = ''more.pdf'', content = ''Y'', type = Pdf\<rparr>],
         isProcessingFile = False, pdfJsLoaded = True\<rparr>
        \<lparr>user_id_now = 1000, user_now = 1001, assistant_id_now = 2000, assistant_now = 2001\<rparr>
        (FetchResolves 200 (JsonResolves (JObj [(''candidates'',
           JArr [JObj [(''content'', JObj [(''parts'', JArr [JObj [(''text'', JStr ''Summary'')]])])]])])))))
      = []"
proof -
  have f: "\<not> fails (FetchResolves 200 (JsonResolves (JObj [(''candidates'',
           JArr [JObj [(''content'', JObj [(''parts'', JArr [JObj [(''text'', JStr ''Summary'')]])])]])])))"
    by (simp add: fails_def ok_def)
  have t: "trim ''Summarize'' \<noteq> []"
    by (simp add: trim_def isWhiteSpace_def)
  show ?thesis
    using f t success_clears_attachments[of
        "FetchResolves 200 (JsonResolves (JObj [(''candidates'',
           JArr [JObj [(''content'', JObj [(''parts'', JArr [JObj [(''text'', JStr ''Summary'')]])])]])]))"
        "\<lparr>messages = [], conversationHistory = [], input = ''Summarize'', isTyping = False,
         uploadedFiles = [\<lparr>name = ''doc.pdf'', content = ''X'', type = Pdf\<rparr>,
                          \<lparr>name = ''more.pdf'', content = ''Y'', type = Pdf\<rparr>],
         isProcessingFile = False, pdfJsLoaded = True\<rparr>"
        "\<lparr>user_id_now = 1000, user_now = 1001, assistant_id_now = 2000, assistant_now = 2001\<rparr>"]
    by simp
qed

text \<open>
  Claim C7: a send while the in-flight flag is set, or with an input that is empty once
  trimmed, does nothing: no request, no alert, no console line, and the state, with both
  logs, is the one before; and so does the press of the send control in the component
  over time. There, as long as a send is suspended at its await the flag is set, so that
  pressing send again changes nothing.
\<close>

theorem guarded_send_is_noop:
  "(isTyping s \<or> trim (input s) = [] \<longrightarrow>
      handleSend_begin s clock = None
      \<and> handleSend s clock outcome = (s, [])
      \<and> step \<lparr>ui = s, sends = pending, uploads = extractions, trace = effects\<rparr>
             (SendPressed clock)
          = \<lparr>ui = s, sends = pending, uploads = extractions, trace = effects\<rparr>)
   \<and> (sends (run (idle s) es) \<noteq> [] \<longrightarrow>
      isTyping (ui (run (idle s) es))
      \<and> step (run (idle s) es) (SendPressed clock) = run (idle s) es)"
proof (intro conjI impI)
  assume "isTyping s \<or> trim (input s) = []"
  then show "handleSend_begin s clock = None"
    and "handleSend s clock outcome = (s, [])"
    and "step \<lparr>ui = s, sends = pending, uploads = extractions, trace = effects\<rparr>
             (SendPressed clock)
          = \<lparr>ui = s, sends = pending, uploads = extractions, trace = effects\<rparr>"
    by (auto simp: handleSend_def handleSend_begin_def Let_def)
next
  assume "sends (run (idle s) es) \<noteq> []"
  moreover have "consistent (run (idle s) es)"
    using run_history[OF consistent_idle] by blast
  ultimately show t: "isTyping (ui (run (idle s) es))"
    by (auto simp: consistent_def split: list.splits)
  then show "step (run (idle s) es) (SendPressed clock) = run (idle s) es"
    by (simp add: handleSend_begin_def Let_def)
qed

theorem guarded_send_is_noop_witness:
  "isTyping \<lparr>messages = [], conversationHistory = [], input = ''Hello'', isTyping = True,
         uploadedFiles = [], isProcessingFile = False, pdfJsLoaded = True\<rparr>
   \<and> handleSend
        \<lparr>messages = [], conversationHistory = [], input = ''Hello'', isTyping = True,
         uploadedFiles = [], isProcessingFile = False, pdfJsLoaded = True\<rparr>
        \<lparr>user_id_now = 1000, user_now = 1001, assistant_id_now = 2000, assistant_now = 2001\<rparr>
        FetchRejects
      = (\<lparr>messages = [], conversationHistory = [], input = ''Hello'', isTyping = True,
         uploadedFiles = [], isProcessingFile = False, pdfJsLoaded = True\<rparr>, [])
   \<and> trim ''  '' = []
   \<and> handleSend
        \<lparr>messages = [], conversationHistory = [], input = ''  '', isTyping = False,
         uploadedFiles = [], isProcessingFile = False, pdfJsLoaded = True\<rparr>
        \<lparr>user_id_now = 1000, user_now = 1001, assistant_id_now = 2000, assistant_now = 2001\<rparr>
        FetchRejects
      = (\<lparr>messages = [], conversationHistory = [], input = ''  '', isTyping = False,
         uploadedFiles = [], isProcessingFile = False, pdfJsLoaded = True\<rparr>, [])
   \<and> sends (run (idle (mounted 0 True))
        [InputChanged ''Hello'',
         SendPressed \<lparr>user_id_now = 1000, user_now = 1001, assistant_id_now = 0, assistant_now = 0\<rparr>,
         InputChanged ''Again''])
      = [[\<lparr>role = RoleUser, parts = [\<lparr>text_part = JStr ''Hello''\<rparr>]\<rparr>]]
   \<and> step (run (idle (mounted 0 True))
        [InputChanged ''Hello'',
         SendPressed \<lparr>user_id_now = 1000, user_now = 1001, assistant_id_now = 0, assistant_now = 0\<rparr>,
         InputChanged ''Again''])
        (SendPressed \<lparr>user_id_now = 1500, user_now = 1501, assistant_id_now = 0, assistant_now = 0\<rparr>)
      = run (idle (mounted 0 True))
        [InputChanged ''Hello'',
         SendPressed \<lparr>user_id_now = 1000, user_now = 1001, assistant_id_now = 0, assistant_now = 0\<rparr>,
         InputChanged ''Again'']"
proof -
  have t: "trim ''  '' = []"
    by (simp add: trim_def isWhiteSpace_def)
  have p: "sends (run (idle (mounted 0 True))
        [InputChanged ''Hello'',
         SendPressed \<lparr>user_id_now = 1000, user_now = 1001, assistant_id_now = 0, assistant_now = 0\<rparr>,
         InputChanged ''Again''])
      = [[\<lparr>role = RoleUser, parts = [\<lparr>text_part = JStr ''Hello''\<rparr>]\<rparr>]]"
    by (simp add: run_def idle_def mounted_def handleSend_begin_def updatedHistory_def
        newUserContent_def messageForAPI_def trim_def isWhiteSpace_def Let_def)
  show ?thesis
    using t p
      guarded_send_is_noop[where
        s = "\<lparr>messages = [], conversationHistory = [], input = ''Hello'', isTyping = True,
         uploadedFiles = [], isProcessingFile = False, pdfJsLoaded = True\<rparr>"
        and clock = "\<lparr>user_id_now = 1000, user_now = 1001, assistant_id_now = 2000, assistant_now = 2001\<rparr>"
        and outcome = FetchRejects]
      guarded_send_is_noop[where
        s = "\<lparr>messages = [], conversationHistory = [], input = ''  '', isTyping = False,
         uploadedFiles = [], isProcessingFile = False, pdfJsLoaded = True\<rparr>"
        and clock = "\<lparr>user_id_now = 1000, user_now = 1001, assistant_id_now = 2000, assistant_now = 2001\<rparr>"
        and outcome = FetchRejects]
      guarded_send_is_noop[where
        s = "mounted 0 True"
        and es = "[InputChanged ''Hello'',
         SendPressed \<lparr>user_id_now = 1000, user_now = 1001, assistant_id_now = 0, assistant_now = 0\<rparr>,
         InputChanged ''Again'']"
        and clock = "\<lparr>user_id_now = 1500, user_now = 1501, assistant_id_now = 0, assistant_now = 0\<rparr>"]
    by simp
qed

text \<open>
  Claim C10 says that \<^verbatim>\<open>callGeminiAPI\<close> always returns a string. What it returns is
  what the service put at the text path, unchecked: here the service puts the number 5
  there, and 5 is returned.
\<close>

theorem callGeminiAPI_returns_a_number:
  "fst (callGeminiAPI
      \<lparr>messages = [], conversationHistory = [], input = ''Hi'', isTyping = False,
       uploadedFiles = [], isProcessingFile = False, pdfJsLoaded = True\<rparr>
      ''Hi'' False
      (FetchResolves 200 (JsonResolves (JObj [(''candidates'',
         JArr [JObj [(''content'', JObj [(''parts'', JArr [JObj [(''text'', JNum 5)]])])]])]))))
   = Inr (JNum 5)"
  by (simp add: callGeminiAPI_def callGeminiAPI_settle_def text_path_def callGeminiAPI_try_def
      ok_def or_no_response_def Let_def)

text \<open>
  Claim C10, amended: for every input and every outcome of the completion service,
  \<^verbatim>\<open>callGeminiAPI\<close> returns and never throws; what it returns is its apology, the
  fallback text, or the value the service put at the text path (a string when the
  service put a string there). So a send that passes the guard always takes the success
  path of \<^verbatim>\<open>handleSend\<close>: the assistant's message holds what \<^verbatim>\<open>callGeminiAPI\<close>
  returned, the attachments are cleared, the in-flight flag is released, and the console
  line of the \<^verbatim>\<open>catch\<close> branch is never written.
\<close>

theorem callGeminiAPI_never_throws:
  "(\<exists>v s' effects.
      callGeminiAPI s message includeFileContent outcome = (Inr v, s', effects)
      \<and> (v = JStr api_error \<or> v = JStr no_response
          \<or> (\<exists>status data. outcome = FetchResolves status (JsonResolves data)
                \<and> text_path data = Inr (Some v))))
   \<and> (trim (input s) \<noteq> [] \<and> \<not> isTyping s \<longrightarrow>
        (\<exists>v s' effects.
            callGeminiAPI s (trim (input s)) (length (uploadedFiles s) > 0) outcome
              = (Inr v, s', effects)
          \<and> messages (fst (handleSend s clock outcome)) =
              messages s @ [userMessage clock (trim (input s)), assistantMessage clock v]
          \<and> uploadedFiles (fst (handleSend s clock outcome)) = []
          \<and> isTyping (fst (handleSend s clock outcome)) = False
          \<and> (\<forall>error. ConsoleError ''Error in handleSend:'' error
                \<notin> set (snd (handleSend s clock outcome)))))"
proof (intro conjI impI)
  obtain v s' effects
    where r: "callGeminiAPI s message includeFileContent outcome = (Inr v, s', effects)"
    using callGeminiAPI_returns by blast
  then have "fst (callGeminiAPI s message includeFileContent outcome) = Inr v" by simp
  from callGeminiAPI_value[OF this] r
  show "\<exists>v s' effects.
      callGeminiAPI s message includeFileContent outcome = (Inr v, s', effects)
      \<and> (v = JStr api_error \<or> v = JStr no_response
          \<or> (\<exists>status data. outcome = FetchResolves status (JsonResolves data)
                \<and> text_path data = Inr (Some v)))"
    by blast
next
  assume "trim (input s) \<noteq> [] \<and> \<not> isTyping s"
  then have g: "trim (input s) \<noteq> []" "\<not> isTyping s" by simp_all
  let ?h = "updatedHistory s (trim (input s)) (length (uploadedFiles s) > 0)"
  show "\<exists>v s' effects.
            callGeminiAPI s (trim (input s)) (length (uploadedFiles s) > 0) outcome
              = (Inr v, s', effects)
          \<and> messages (fst (handleSend s clock outcome)) =
              messages s @ [userMessage clock (trim (input s)), assistantMessage clock v]
          \<and> uploadedFiles (fst (handleSend s clock outcome)) = []
          \<and> isTyping (fst (handleSend s clock outcome)) = False
          \<and> (\<forall>error. ConsoleError ''Error in handleSend:'' error
                \<notin> set (snd (handleSend s clock outcome)))"
  proof (cases "fails outcome")
    case True
    obtain e where "callGeminiAPI_settle ?h outcome s =
        (Inr (JStr api_error), s, [ConsoleError ''Error calling Gemini API:'' e])"
      using settle_fails[OF True] by blast
    moreover obtain e' where "handleSend s clock outcome =
       (s\<lparr>messages := messages s @ [userMessage clock (trim (input s)),
                                     assistantMessage clock (JStr api_error)],
          input := [], isTyping := False, uploadedFiles := []\<rparr>,
        [Fetch ?h, ConsoleError ''Error calling Gemini API:'' e'])"
      using handleSend_failure[OF True g] by blast
    ultimately show ?thesis by (simp add: callGeminiAPI_def)
  next
    case False
    obtain v where "callGeminiAPI_try ?h outcome = Inr (v, ?h @ [aiContent v])"
      using try_succeeds[OF False] by blast
    then have "callGeminiAPI_settle ?h outcome cur =
        (Inr v, cur\<lparr>conversationHistory := ?h @ [aiContent v]\<rparr>, [])" for cur
      by (simp add: callGeminiAPI_settle_def)
    then show ?thesis
      by (intro exI[of _ v])
         (simp add: callGeminiAPI_def handleSend_def handleSend_begin_Some[OF g]
            handleSend_settle_def Let_def)
  qed
qed

theorem callGeminiAPI_never_throws_witness:
  "trim ''Hello'' \<noteq> []
   \<and> fst (callGeminiAPI
        \<lparr>messages = [], conversationHistory = [], input = ''Hello'', isTyping = False,
         uploadedFiles = [\<lparr>name = ''doc.pdf'', content = ''X'', type = Pdf\<rparr>],
         isProcessingFile = False, pdfJsLoaded = True\<rparr>
        ''Hello'' True FetchRejects)
      = Inr (JStr ''Sorry, I encountered an error while processing your request. Please try again.'')
   \<and> map text_msg (messages (fst (handleSend
        \<lparr>messages = [], conversationHistory = [], input = ''Hello'', isTyping = False,
         uploadedFiles = [\<lparr>name = ''doc.pdf'', content = ''X'', type = Pdf\<rparr>],
         isProcessingFile = False, pdfJsLoaded = True\<rparr>
        \<lparr>user_id_now = 1000, user_now = 1001, assistant_id_now = 2000, assistant_now = 2001\<rparr>
        FetchRejects)))
      = [JStr ''Hello'',
         JStr ''Sorry, I encountered an error while processing your request. Please try again.'']
   \<and> uploadedFiles (fst (handleSend
        \<lparr>messages = [], conversationHistory = [], input = ''Hello'', isTyping = False,
         uploadedFiles = [\<lparr>name = ''doc.pdf'', content = ''X'', type = Pdf\<rparr>],
         isProcessingFile = False, pdfJsLoaded = True\<rparr>
        \<lparr>user_id_now = 1000, user_now = 1001, assistant_id_now = 2000, assistant_now = 2001\<rparr>
        FetchRejects)) = []
   \<and> snd (handleSend
        \<lparr>messages = [], conversationHistory = [], input = ''Hello'', isTyping = False,
         uploadedFiles = [\<lparr>name = ''doc.pdf'', content = ''X'', type = Pdf\<rparr>],
         isProcessingFile = False, pdfJsLoaded = True\<rparr>
        \<lparr>user_id_now = 1000, user_now = 1001, assistant_id_now = 2000, assistant_now = 2001\<rparr>
        FetchRejects)
      = [Fetch [\<lparr>role = RoleUser, parts = [\<lparr>text_part = JStr
           ''Context from uploaded files:\<newline>Content from doc.pdf:\<newline>X\<newline>\<newline>User question: Hello''\<rparr>]\<rparr>],
         ConsoleError ''Error calling Gemini API:'' FetchRejected]"
  using callGeminiAPI_never_throws[of
      "\<lparr>messages = [], conversationHistory = [], input = ''Hello'', isTyping = False,
         uploadedFiles = [\<lparr>name = ''doc.pdf'', content = ''X'', type = Pdf\<rparr>],
         isProcessingFile = False, pdfJsLoaded = True\<rparr>"
      "''Hello''" True FetchRejects
      "\<lparr>user_id_now = 1000, user_now = 1001, assistant_id_now = 2000, assistant_now = 2001\<rparr>"]
  by (simp add: handleSend_def handleSend_begin_def handleSend_settle_def callGeminiAPI_def
      callGeminiAPI_settle_def callGeminiAPI_try_def updatedHistory_def newUserContent_def
      messageForAPI_def userMessage_def assistantMessage_def api_error_def
      trim_def isWhiteSpace_def Let_def)

subsection \<open>Claims about the reply\<close>

text \<open>
  Claim C6 says that the fallback text stands in for the reply only when the text field
  is absent. It also does when the field is there and falsy: here the service answers
  with an empty text, and the reply is the fallback. (And a body that is \<^verbatim>\<open>null\<close>
  gives neither: reading \<^verbatim>\<open>candidates\<close> of it throws.)
\<close>

theorem empty_text_gets_fallback:
  "text_path (JObj [(''candidates'',
       JArr [JObj [(''content'', JObj [(''parts'', JArr [JObj [(''text'', JStr '''')]])])]])])
     = Inr (Some (JStr ''''))
   \<and> callGeminiAPI_try []
       (FetchResolves 200 (JsonResolves (JObj [(''candidates'',
          JArr [JObj [(''content'', JObj [(''parts'', JArr [JObj [(''text'', JStr '''')]])])]])])))
     = Inr (JStr ''Sorry, I could not generate a response.'',
            [\<lparr>role = RoleModel,
              parts = [\<lparr>text_part = JStr ''Sorry, I could not generate a response.''\<rparr>]\<rparr>])
   \<and> callGeminiAPI_try [] (FetchResolves 200 (JsonResolves JNull)) = Inl TypeError"
  by (simp add: text_path_def callGeminiAPI_try_def ok_def or_no_response_def no_response_def
      aiContent_def Let_def)

text \<open>
  Claim C6, amended: for every response with a success status whose body parses to a
  value other than \<^verbatim>\<open>null\<close>, the fixed path (first candidate, content, first part,
  text) yields a value or nothing; the reply is that value, unless there is none or it is
  falsy (\<^verbatim>\<open>null\<close>, \<^verbatim>\<open>false\<close>, 0 or the empty string): then, and only then, the reply
  is the fallback text. The reply is also what the model turn added to the history holds.
\<close>

theorem reply_is_text_or_fallback:
  assumes "ok status" and "data \<noteq> JNull"
  shows "\<exists>v. text_path data = Inr v
     \<and> callGeminiAPI_try history (FetchResolves status (JsonResolves data)) =
         (if v \<in> {None, Some JNull, Some (JBool False), Some (JNum 0), Some (JStr [])}
          then Inr (JStr no_response, history @ [aiContent (JStr no_response)])
          else Inr (the v, history @ [aiContent (the v)]))"
proof -
  obtain v where v: "text_path data = Inr v"
    using text_path_not_null[OF assms(2)] by blast
  show ?thesis
    using assms(1) falsy_cases[of v]
    by (intro exI[of _ v]) (simp add: v callGeminiAPI_try_def or_no_response_def Let_def)
qed

theorem reply_is_text_or_fallback_witness:
  "ok 200
   \<and> JObj [(''candidates'',
        JArr [JObj [(''content'', JObj [(''parts'', JArr [JObj [(''text'', JStr ''Hi!'')]])])]])]
       \<noteq> JNull
   \<and> text_path (JObj [(''candidates'',
        JArr [JObj [(''content'', JObj [(''parts'', JArr [JObj [(''text'', JStr ''Hi!'')]])])]])])
       = Inr (Some (JStr ''Hi!''))
   \<and> callGeminiAPI_try []
        (FetchResolves 200 (JsonResolves (JObj [(''candidates'',
           JArr [JObj [(''content'', JObj [(''parts'', JArr [JObj [(''text'', JStr ''Hi!'')]])])]])])))
       = Inr (JStr ''Hi!'', [\<lparr>role = RoleModel, parts = [\<lparr>text_part = JStr ''Hi!''\<rparr>]\<rparr>])
   \<and> JObj [(''candidates'', JArr [])] \<noteq> JNull
   \<and> text_path (JObj [(''candidates'', JArr [])]) = Inr None
   \<and> callGeminiAPI_try [] (FetchResolves 200 (JsonResolves (JObj [(''candidates'', JArr [])])))
       = Inr (JStr ''Sorry, I could not generate a response.'',
              [\<lparr>role = RoleModel,
                parts = [\<lparr>text_part = JStr ''Sorry, I could not generate a response.''\<rparr>]\<rparr>])"
proof -
  have k: "ok 200" by (simp add: ok_def)
  show ?thesis
    using k
      reply_is_text_or_fallback[OF k, of
        "JObj [(''candidates'',
           JArr [JObj [(''content'', JObj [(''parts'', JArr [JObj [(''text'', JStr ''Hi!'')]])])]])]"
        "[]"]
      reply_is_text_or_fallback[OF k, of "JObj [(''candidates'', JArr [])]" "[]"]
    by (simp add: text_path_def no_response_def aiContent_def)
qed

subsection \<open>Claims about extraction and upload\<close>

text \<open>
  Claim C5: for a document whose pages all give their text, the extraction visits the
  pages 1 to N in increasing order (one console line for each, in that order) and
  returns what the specification describes: for every page, in page order, the header
  \<^verbatim>\<open>Page i:\<close> and a line break, the page's fragments joined by one space, and a blank
  line. A page that is refused, or whose text content is refused, makes the extraction
  fail: the result is an error and carries no text, and the upload that asked for it
  stores no attachment and no message.
\<close>

theorem extraction_in_page_order:
  "(pdfJsLoaded s \<longrightarrow>
      extractTextFromPDF s True (ReadLoads (Document (map TextContent pages)))
        = (Inr (spec_extract pages),
           ConsoleLog [''PDF loaded successfully. Total pages: '' @ digits (length pages)]
           # map (\<lambda>(i, fragments).
                    ConsoleLog [''Page '' @ digits i @ '' extracted:'', join '' '' fragments])
               (enumerate 1 pages)
           @ [ConsoleLog [''Complete PDF content:'', spec_extract pages]]))
   \<and> (p \<in> set pdf \<and> (p = GetPageRejects \<or> p = GetTextContentRejects) \<longrightarrow>
        (\<exists>e. fst (extractTextFromPDF s pdfjsLib (ReadLoads (Document pdf))) = Inl e)
        \<and> uploadedFiles
              (fst (handleFileUpload_settle s file pdfjsLib (ReadLoads (Document pdf)) clock cur))
            = uploadedFiles cur
        \<and> messages
              (fst (handleFileUpload_settle s file pdfjsLib (ReadLoads (Document pdf)) clock cur))
            = messages cur)"
proof (intro conjI impI)
  assume "pdfJsLoaded s"
  then show "extractTextFromPDF s True (ReadLoads (Document (map TextContent pages)))
        = (Inr (spec_extract pages),
           ConsoleLog [''PDF loaded successfully. Total pages: '' @ digits (length pages)]
           # map (\<lambda>(i, fragments).
                    ConsoleLog [''Page '' @ digits i @ '' extracted:'', join '' '' fragments])
               (enumerate 1 pages)
           @ [ConsoleLog [''Complete PDF content:'', spec_extract pages]])"
    by (simp add: extractTextFromPDF_def extract_pages_whole[unfolded One_nat_def])
next
  assume a: "p \<in> set pdf \<and> (p = GetPageRejects \<or> p = GetTextContentRejects)"
  then obtain k where k: "1 \<le> k" "k \<le> length pdf" "getPage pdf k = p"
    using set_getPage by blast
  with a have "\<forall>fr. getPage pdf k \<noteq> TextContent fr" by auto
  with k extract_pages_fail[where i = 1 and k = k and pdf = pdf and acc = "[]"]
  obtain e where "fst (extract_pages pdf 1 []
      [ConsoleLog [''PDF loaded successfully. Total pages: '' @ digits (length pdf)]]) = Inl e"
    by blast
  then show e: "\<exists>e. fst (extractTextFromPDF s pdfjsLib (ReadLoads (Document pdf))) = Inl e"
    by (auto simp: extractTextFromPDF_def split: prod.splits sum.splits)
  then show "uploadedFiles
      (fst (handleFileUpload_settle s file pdfjsLib (ReadLoads (Document pdf)) clock cur))
        = uploadedFiles cur"
    by (cases "extractTextFromPDF s pdfjsLib (ReadLoads (Document pdf))")
       (auto simp: handleFileUpload_settle_def)
  from e show "messages
      (fst (handleFileUpload_settle s file pdfjsLib (ReadLoads (Document pdf)) clock cur))
        = messages cur"
    by (cases "extractTextFromPDF s pdfjsLib (ReadLoads (Document pdf))")
       (auto simp: handleFileUpload_settle_def)
qed

theorem extraction_in_page_order_witness:
  "pdfJsLoaded \<lparr>messages = [], conversationHistory = [], input = [], isTyping = False,
         uploadedFiles = [], isProcessingFile = True, pdfJsLoaded = True\<rparr>
   \<and> fst (extractTextFromPDF
        \<lparr>messages = [], conversationHistory = [], input = [], isTyping = False,
         uploadedFiles = [], isProcessingFile = True, pdfJsLoaded = True\<rparr>
        True (ReadLoads (Document (map TextContent [[''Hello'', ''world''], [], [''Bye'']]))))
      = Inr ''Page 1:\<newline>Hello world\<newline>\<newline>Page 2:\<newline>\<newline>\<newline>Page 3:\<newline>Bye\<newline>\<newline>''
   \<and> GetTextContentRejects \<in> set [TextContent [''Hello''], GetTextContentRejects]
   \<and> (\<exists>e. fst (extractTextFromPDF
        \<lparr>messages = [], conversationHistory = [], input = [], isTyping = False,
         uploadedFiles = [], isProcessingFile = True, pdfJsLoaded = True\<rparr>
        True (ReadLoads (Document [TextContent [''Hello''], GetTextContentRejects]))) = Inl e)"
  using extraction_in_page_order[of
      "\<lparr>messages = [], conversationHistory = [], input = [], isTyping = False,
         uploadedFiles = [], isProcessingFile = True, pdfJsLoaded = True\<rparr>"
      "[[''Hello'', ''world''], [], [''Bye'']]" GetTextContentRejects
      "[TextContent [''Hello''], GetTextContentRejects]" True]
  by (simp add: spec_extract_def page_block_def digits.simps)

text \<open>
  Claim C8: choosing a file whose declared media type is not \<^verbatim>\<open>application/pdf\<close>
  raises the alert and nothing else: the state (attachments, conversation log and all the
  rest) is the one before, no extraction is started, and in the component over time no
  suspended handler is touched.
\<close>

theorem non_pdf_upload_is_rejected:
  assumes "type_File file \<noteq> ''application/pdf''"
  shows "handleFileUpload s (Some file) pdfjsLib reading clock
           = (s, [Alert ''Please upload only PDF files''])
         \<and> handleFileUpload_begin s (Some file)
           = (s, [Alert ''Please upload only PDF files''], None)
         \<and> step \<lparr>ui = s, sends = pending, uploads = extractions, trace = effects\<rparr>
                (FileChosen (Some file))
           = \<lparr>ui = s, sends = pending, uploads = extractions,
              trace = effects @ [Alert ''Please upload only PDF files'']\<rparr>"
  using assms by (simp add: handleFileUpload_def handleFileUpload_begin_def)

theorem non_pdf_upload_is_rejected_witness:
  "type_File \<lparr>name_File = ''photo.png'', type_File = ''image/png''\<rparr> \<noteq> ''application/pdf''
   \<and> handleFileUpload
        \<lparr>messages = [], conversationHistory = [], input = ''Hello'', isTyping = False,
         uploadedFiles = [\<lparr>name = ''doc.pdf'', content = ''X'', type = Pdf\<rparr>],
         isProcessingFile = False, pdfJsLoaded = True\<rparr>
        (Some \<lparr>name_File = ''photo.png'', type_File = ''image/png''\<rparr>)
        True (ReadLoads (Document [TextContent [''Hello'']]))
        \<lparr>file_id_now = 1000, file_now = 1001\<rparr>
      = (\<lparr>messages = [], conversationHistory = [], input = ''Hello'', isTyping = False,
         uploadedFiles = [\<lparr>name = ''doc.pdf'', content = ''X'', type = Pdf\<rparr>],
         isProcessingFile = False, pdfJsLoaded = True\<rparr>,
         [Alert ''Please upload only PDF files''])"
proof -
  have t: "type_File \<lparr>name_File = ''photo.png'', type_File = ''image/png''\<rparr> \<noteq> ''application/pdf''"
    by simp
  show ?thesis
    using t non_pdf_upload_is_rejected[OF t, of
        "\<lparr>messages = [], conversationHistory = [], input = ''Hello'', isTyping = False,
         uploadedFiles = [\<lparr>name = ''doc.pdf'', content = ''X'', type = Pdf\<rparr>],
         isProcessingFile = False, pdfJsLoaded = True\<rparr>"
        True "ReadLoads (Document [TextContent [''Hello'']])"
        "\<lparr>file_id_now = 1000, file_now = 1001\<rparr>"]
    by simp
qed

subsection \<open>Claims about the logs\<close>

text \<open>
  Claim C9: whatever the user does (typing, sending, choosing files, removing
  attachments) and however the awaited requests and extractions settle in between, the
  conversation log only grows at its end: the log after a sequence of events is an initial
  segment of the log after any longer sequence, so its length never decreases and every
  entry, with all its fields, stays what it was. The same holds of the model session. The
  component starts with no handler suspended.
\<close>

theorem logs_are_append_only:
  "prefix (messages (ui (run (idle s) es))) (messages (ui (run (idle s) (es @ es'))))
   \<and> prefix (conversationHistory (ui (run (idle s) es)))
             (conversationHistory (ui (run (idle s) (es @ es'))))
   \<and> length (messages (ui (run (idle s) es)))
        \<le> length (messages (ui (run (idle s) (es @ es'))))
   \<and> length (conversationHistory (ui (run (idle s) es)))
        \<le> length (conversationHistory (ui (run (idle s) (es @ es'))))"
  using run_messages[of "run (idle s) es" es'] run_history[OF consistent_idle, of s es]
    run_history[of "run (idle s) es" es']
  by (simp add: run_append prefix_length_le)

theorem logs_are_append_only_witness:
  "map text_msg (messages (ui (run (idle (mounted 0 True))
      [InputChanged ''Hello'',
       SendPressed \<lparr>user_id_now = 1000, user_now = 1001, assistant_id_now = 0, assistant_now = 0\<rparr>])))
     = [JStr ''Hi, how can I help you today? You can also upload PDF files for me to analyze!'',
        JStr ''Hello'']
   \<and> map text_msg (messages (ui (run (idle (mounted 0 True))
      ([InputChanged ''Hello'',
        SendPressed \<lparr>user_id_now = 1000, user_now = 1001, assistant_id_now = 0, assistant_now = 0\<rparr>]
       @ [FileChosen (Some \<lparr>name_File = ''doc.pdf'', type_File = ''application/pdf''\<rparr>),
          FetchSettles 0 FetchRejects
            \<lparr>user_id_now = 0, user_now = 0, assistant_id_now = 2000, assistant_now = 2001\<rparr>,
          ExtractionSettles 0 True (ReadLoads (Document [TextContent [''X'']]))
            \<lparr>file_id_now = 3000, file_now = 3001\<rparr>,
          RemovePressed 0]))))
     = [JStr ''Hi, how can I help you today? You can also upload PDF files for me to analyze!'',
        JStr ''Hello'',
        JStr ''Sorry, I encountered an error while processing your request. Please try again.'',
        JStr ''Uploaded: doc.pdf'']
   \<and> prefix
        (messages (ui (run (idle (mounted 0 True))
          [InputChanged ''Hello'',
           SendPressed \<lparr>user_id_now = 1000, user_now = 1001, assistant_id_now = 0, assistant_now = 0\<rparr>])))
        (messages (ui (run (idle (mounted 0 True))
          ([InputChanged ''Hello'',
            SendPressed \<lparr>user_id_now = 1000, user_now = 1001, assistant_id_now = 0, assistant_now = 0\<rparr>]
           @ [FileChosen (Some \<lparr>name_File = ''doc.pdf'', type_File = ''application/pdf''\<rparr>),
              FetchSettles 0 FetchRejects
                \<lparr>user_id_now = 0, user_now = 0, assistant_id_now = 2000, assistant_now = 2001\<rparr>,
              ExtractionSettles 0 True (ReadLoads (Document [TextContent [''X'']]))
                \<lparr>file_id_now = 3000, file_now = 3001\<rparr>,
              RemovePressed 0]))))"
  using logs_are_append_only[of "mounted 0 True"
      "[InputChanged ''Hello'',
        SendPressed \<lparr>user_id_now = 1000, user_now = 1001, assistant_id_now = 0, assistant_now = 0\<rparr>]"
      "[FileChosen (Some \<lparr>name_File = ''doc.pdf'', type_File = ''application/pdf''\<rparr>),
        FetchSettles 0 FetchRejects
          \<lparr>user_id_now = 0, user_now = 0, assistant_id_now = 2000, assistant_now = 2001\<rparr>,
        ExtractionSettles 0 True (ReadLoads (Document [TextContent [''X'']]))
          \<lparr>file_id_now = 3000, file_now = 3001\<rparr>,
        RemovePressed 0]"]
  by (simp add: run_def idle_def mounted_def handleSend_begin_def handleSend_settle_def
      callGeminiAPI_settle_def callGeminiAPI_try_def updatedHistory_def newUserContent_def
      messageForAPI_def userMessage_def assistantMessage_def api_error_def
      handleFileUpload_begin_def handleFileUpload_settle_def extractTextFromPDF_def
      extract_pages.simps getPage_def fileMessage_def newFile_def removeFile_def drop_nth_def
      trim_def isWhiteSpace_def Let_def)

end
